theory Spec2Isabelle
  imports Complex_Main "HOL-Library.Sublist" "HOL-Library.AList"
begin

section \<open>Python strings and exceptions\<close>

text \<open>
  A Python \<open>str\<close> is a sequence of Unicode code points, so it is modelled as a list of
  natural numbers, one per code point. \<open>py\<close> turns an ASCII literal into such a list.
\<close>

type_synonym str = "nat list"

definition py :: "string \<Rightarrow> str" where
  "py s = map of_char s"

text \<open>
  The exceptions that the modelled code can meet: faults of the browser driver, the two
  exceptions Python itself raises in the parsers, and the HTTP error of the API layer
  (status code and detail).
\<close>

datatype exn =
    NoSuchElementException
  | StaleElementReferenceException
  | TimeoutException
  | WebDriverException str
  | IndexError
  | ValueError
  | HTTPException int str

text \<open>
  A computation that may raise is a value of \<open>exn + 'a\<close>. \<open>bind\<close> sequences two
  statements inside a \<open>try\<close> block; \<open>try_except\<close> is the handler of a
  \<open>try: ... except: ...\<close> that catches everything.
\<close>

definition bind :: "exn + 'a \<Rightarrow> ('a \<Rightarrow> exn + 'b) \<Rightarrow> exn + 'b" where
  "bind m f = (case m of Inl e \<Rightarrow> Inl e | Inr x \<Rightarrow> f x)"

definition try_except :: "exn + 'a \<Rightarrow> (exn \<Rightarrow> 'a) \<Rightarrow> 'a" where
  "try_except m h = (case m of Inl e \<Rightarrow> h e | Inr x \<Rightarrow> x)"

text \<open>\<open>str.isspace\<close> on one code point: the code points Python treats as whitespace.\<close>

definition isspace :: "nat \<Rightarrow> bool" where
  "isspace c \<longleftrightarrow>
     (9 \<le> c \<and> c \<le> 13) \<or> (28 \<le> c \<and> c \<le> 32) \<or> c = 133 \<or> c = 160 \<or> c = 5760 \<or>
     (8192 \<le> c \<and> c \<le> 8202) \<or> c = 8232 \<or> c = 8233 \<or> c = 8239 \<or> c = 8287 \<or> c = 12288"

text \<open>\<open>s.strip()\<close>: leading and trailing whitespace removed.\<close>

definition strip :: "str \<Rightarrow> str" where
  "strip s = rev (dropWhile isspace (rev (dropWhile isspace s)))"

text \<open>
  \<open>s.split(sep)\<close> for a separator \<open>d # ds\<close>: the text is scanned from the left, every
  occurrence of the separator closes the current segment, and occurrences do not overlap.
  Python raises \<open>ValueError\<close> for the empty separator.
\<close>

function split_from :: "'a \<Rightarrow> 'a list \<Rightarrow> 'a list \<Rightarrow> 'a list \<Rightarrow> 'a list list" where
  "split_from d ds cur [] = [cur]"
| "split_from d ds cur (c # cs) =
     (if prefix (d # ds) (c # cs) then cur # split_from d ds [] (drop (length ds) cs)
      else split_from d ds (cur @ [c]) cs)"
  by pat_completeness auto
termination
  by (relation "measure (\<lambda>(d, ds, cur, s). length s)") auto

definition split :: "str \<Rightarrow> str \<Rightarrow> exn + str list" where
  "split s sep = (case sep of [] \<Rightarrow> Inl ValueError | d # ds \<Rightarrow> Inr (split_from d ds [] s))"

text \<open>
  \<open>s.split()\<close> without a separator: the text is cut at runs of whitespace and no empty
  token is produced.
\<close>

fun split_ws_from :: "str \<Rightarrow> str \<Rightarrow> str list" where
  "split_ws_from cur [] = (if cur = [] then [] else [cur])"
| "split_ws_from cur (c # cs) =
     (if isspace c then (if cur = [] then split_ws_from [] cs else cur # split_ws_from [] cs)
      else split_ws_from (cur @ [c]) cs)"

definition split_ws :: "str \<Rightarrow> str list" where
  "split_ws s = split_ws_from [] s"

text \<open>\<open>xs[i]\<close> for a non-negative index: \<open>IndexError\<close> out of range.\<close>

definition index :: "'a list \<Rightarrow> nat \<Rightarrow> exn + 'a" where
  "index xs i = (if i < length xs then Inr (xs ! i) else Inl IndexError)"

text \<open>
  \<open>xs[:n]\<close>: the first \<open>n\<close> elements; a negative \<open>n\<close> counts from the end of the list.
\<close>

definition slice_to :: "'a list \<Rightarrow> int \<Rightarrow> 'a list" where
  "slice_to xs n = (if 0 \<le> n then take (nat n) xs else take (nat (int (length xs) + n)) xs)"

text \<open>
  \<open>float(s)\<close> is Python's own parser and is a parameter \<open>pf\<close> of the model: \<open>None\<close> is
  the \<open>ValueError\<close> of a text that is no number, \<open>Some v\<close> the parsed value.
\<close>

definition float :: "(str \<Rightarrow> 'f option) \<Rightarrow> str \<Rightarrow> exn + 'f" where
  "float pf s = (case pf s of None \<Rightarrow> Inl ValueError | Some v \<Rightarrow> Inr v)"


section \<open>The browser driver\<close>

text \<open>
  Modelled from the spec: the browser driver is no code of this repository; the spec gives
  its boundary (find an element, read its text or an attribute as a string, click, the
  current location), and every call may fail. An element handle answers each read with a
  string or a fault. A page is what the driver answers while one listing's panel is open.
\<close>

record element =
  elem_text :: "exn + str"
  get_attribute :: "str \<Rightarrow> exn + str"
  click :: "exn + unit"

record row =
  th_text :: "exn + str"
  td_text :: "exn + str"

record page =
  find_element :: "str \<Rightarrow> exn + element"
  wait_until_present :: "str \<Rightarrow> exn + element"
  find_rows :: "exn + row list"
  current_url :: "exn + str"

section \<open>Field extraction (scraper.py)\<close>

definition safe_extract_text :: "page \<Rightarrow> str \<Rightarrow> str" where
  "safe_extract_text drv selector =
     try_except
       (bind (find_element drv selector) (\<lambda>el.
        bind (elem_text el) (\<lambda>t.
        Inr (strip t))))
       (\<lambda>e. [])"

definition safe_extract_attribute :: "page \<Rightarrow> str \<Rightarrow> str \<Rightarrow> str" where
  "safe_extract_attribute drv selector attribute =
     try_except
       (bind (find_element drv selector) (\<lambda>el.
        get_attribute el attribute))
       (\<lambda>e. [])"

text \<open>
  The separator literal of \<open>_extract_categories\<close> is the two code points U+00C2 U+00B7
  (the source file holds the bytes C3 82 C2 B7 between the quotes).
\<close>

definition category_separator :: str where
  "category_separator = [0xC2, 0xB7]"

text \<open>A CSS selector \<open>prefix'value']\<close>; 39 is the single quote.\<close>

definition attr_selector :: "string \<Rightarrow> string \<Rightarrow> str" where
  "attr_selector pre val = py pre @ [39] @ py val @ [39] @ py '']''"

definition category_selector :: str where
  "category_selector = attr_selector ''button[jsaction='' ''pane.rating.category''"

definition extract_categories :: "page \<Rightarrow> str list" where
  "extract_categories drv =
     try_except
       (bind (find_element drv category_selector) (\<lambda>categories_element.
        bind (elem_text categories_element) (\<lambda>t.
        bind (split t category_separator) (\<lambda>cats.
        Inr (map strip cats)))))
       (\<lambda>e. [])"

text \<open>
  \<open>_extract_coordinates\<close>: the dictionary \<open>coords\<close> is an association list; it is
  returned empty when the URL has no \<open>@\<close>, and any exception gives the empty dictionary.
\<close>

definition extract_coordinates :: "(str \<Rightarrow> 'f option) \<Rightarrow> page \<Rightarrow> (str \<times> 'f) list" where
  "extract_coordinates pf drv =
     try_except
       (bind (current_url drv) (\<lambda>url.
        if 64 \<in> set url then
          bind (split url [64]) (\<lambda>parts.
          bind (index parts 1) (\<lambda>part.
          bind (split part [44]) (\<lambda>fields.
          let lat_lng = slice_to fields 2 in
          bind (index lat_lng 0) (\<lambda>a.
          bind (float pf a) (\<lambda>lat.
          bind (index lat_lng 1) (\<lambda>b.
          bind (float pf b) (\<lambda>lng.
          Inr [(py ''latitude'', lat), (py ''longitude'', lng)])))))))
        else Inr []))
       (\<lambda>e. [])"

section \<open>Rating parser (utils.py, database.py)\<close>

definition parse_rating :: "(str \<Rightarrow> 'f::zero option) \<Rightarrow> str \<Rightarrow> 'f" where
  "parse_rating pf rating_str =
     try_except
       (bind (index (split_ws rating_str) 0) (\<lambda>tok.
        float pf tok))
       (\<lambda>e. 0)"

text \<open>
  \<open>DatabaseManager._parse_rating\<close> has the same body after \<open>str(rating_str)\<close>, which
  leaves a string as it is.
\<close>

definition db_parse_rating :: "(str \<Rightarrow> 'f::zero option) \<Rightarrow> str \<Rightarrow> 'f" where
  "db_parse_rating pf rating_str =
     try_except
       (bind (index (split_ws (id rating_str)) 0) (\<lambda>tok.
        float pf tok))
       (\<lambda>e. 0)"

section \<open>One listing's panel (scraper.py)\<close>

text \<open>
  \<open>_extract_hours\<close>: the dictionary \<open>hours\<close> is an association list in insertion
  order. A row whose day or time cell cannot be read is skipped; a fault before the loop
  leaves the dictionary empty.
\<close>

definition add_hours_row :: "(str \<times> str) list \<Rightarrow> row \<Rightarrow> (str \<times> str) list" where
  "add_hours_row hours element =
     try_except
       (bind (th_text element) (\<lambda>th.
        bind (td_text element) (\<lambda>td.
        Inr (AList.update (strip th) (strip td) hours))))
       (\<lambda>e. hours)"

definition extract_hours :: "page \<Rightarrow> (str \<times> str) list" where
  "extract_hours drv =
     try_except
       (bind (find_element drv (attr_selector ''button[data-item-id='' ''oh'')) (\<lambda>hours_button.
        bind (click hours_button) (\<lambda>_.
        bind (find_rows drv) (\<lambda>hours_elements.
        Inr (foldl add_hours_row [] hours_elements)))))
       (\<lambda>e. [])"

text \<open>
  The dictionary built by \<open>_extract_business_details\<close> has nine fixed keys; the other
  value the function returns is the empty dictionary.
\<close>

record 'f business_info =
  name :: str
  address :: str
  phone :: str
  website :: str
  rating :: str
  reviews_count :: str
  categories :: "str list"
  hours :: "(str \<times> str) list"
  coordinates :: "(str \<times> 'f) list"

datatype 'f business_data = Empty_dict | Business_dict "'f business_info"

definition extract_business_details :: "(str \<Rightarrow> 'f option) \<Rightarrow> page \<Rightarrow> 'f business_data" where
  "extract_business_details pf drv =
     try_except
       (bind (wait_until_present drv (py ''div.fontHeadlineSmall'')) (\<lambda>_.
        Inr (Business_dict
          \<lparr> name = safe_extract_text drv (py ''div.fontHeadlineSmall''),
            address = safe_extract_text drv (attr_selector ''button[data-item-id='' ''address''),
            phone = safe_extract_text drv (attr_selector ''button[data-item-id='' ''phone:tel''),
            website = safe_extract_attribute drv (attr_selector ''a[data-item-id='' ''authority'') (py ''href''),
            rating = safe_extract_text drv (py ''span.fontDisplayLarge''),
            reviews_count = safe_extract_text drv (attr_selector ''button[jsaction='' ''pane.rating.moreReviews''),
            categories = extract_categories drv,
            hours = extract_hours drv,
            coordinates = extract_coordinates pf drv \<rparr>)))
       (\<lambda>e. Empty_dict)"

section \<open>The extraction engine (scraper.py)\<close>

text \<open>
  Modelled from the spec: what the browser answers during one run. The search phase
  (lines 52 to 61) either raises or not; the scroll of iteration \<open>i\<close> either raises or
  leaves some number of listings loaded in the results feed; the listings found after the
  scrolling are handles whose click raises or opens that listing's panel; \<open>quit\<close> may
  raise. \<open>constructor_fault\<close> is a failure of \<open>GoogleMapsScraper()\<close> itself.
\<close>

datatype scroll_outcome = Scroll_fault exn | Scrolled nat

record listing =
  listing_click :: "exn + page"

record world =
  constructor_fault :: "exn option"
  search :: "str \<Rightarrow> exn option"
  scroll :: "nat \<Rightarrow> scroll_outcome"
  find_listings :: "exn + listing list"
  quit :: "exn option"

text \<open>
  What a run does that the claims speak of: entering scroll iteration \<open>i\<close>, and a call
  \<open>progress_callback(completed, total)\<close>.
\<close>

datatype event = Scroll_iteration nat | Progress int int

text \<open>
  The scroll loop, lines 70 to 95, over the rest of \<open>range(scrolls_needed)\<close>. \<open>results\<close>
  is the list of extracted records, which the loop reads and never changes.
\<close>

fun scroll_loop :: "(nat \<Rightarrow> scroll_outcome) \<Rightarrow> int \<Rightarrow> 'r list \<Rightarrow> nat list \<Rightarrow> event list" where
  "scroll_loop sc max_results results [] = []"
| "scroll_loop sc max_results results (i # rest) =
     Scroll_iteration i #
     (case sc i of
        Scroll_fault e \<Rightarrow> scroll_loop sc max_results results rest
      | Scrolled loaded \<Rightarrow>
          (let results_found = int (length results) in
           Progress results_found max_results #
           (if results_found \<ge> max_results then []
            else scroll_loop sc max_results results rest)))"

text \<open>The listing loop, lines 100 to 118: a raising click skips the listing.\<close>

fun listing_loop ::
  "(str \<Rightarrow> 'f option) \<Rightarrow> int \<Rightarrow> listing list \<Rightarrow> 'f business_data list \<Rightarrow>
   'f business_data list \<times> event list" where
  "listing_loop pf max_results [] results = (results, [])"
| "listing_loop pf max_results (l # rest) results =
     (case listing_click l of
        Inl e \<Rightarrow> listing_loop pf max_results rest results
      | Inr panel \<Rightarrow>
          (let business_data = extract_business_details pf panel;
               results' = results @ [business_data];
               (final, events) = listing_loop pf max_results rest results'
           in (final, Progress (int (length results')) max_results # events)))"

text \<open>
  \<open>scrape_google_maps_sync\<close>: the value returned or the exception raised, and the events
  of the run in order. The \<open>finally\<close> block quits the driver on every path, and an
  exception of \<open>quit\<close> replaces the outcome.
\<close>

definition scrape_body ::
  "(str \<Rightarrow> 'f option) \<Rightarrow> world \<Rightarrow> str \<Rightarrow> str \<Rightarrow> int \<Rightarrow>
   (exn + 'f business_data list) \<times> event list" where
  "scrape_body pf w keywords location max_results =
     (let results = [];
          search_query = keywords @ py '' in '' @ location
      in case search w search_query of
           Some e \<Rightarrow> (Inl e, [])
         | None \<Rightarrow>
             (let scrolls_needed = max_results div 20;
                  scrolled = scroll_loop (scroll w) max_results results [0..<nat scrolls_needed]
              in case find_listings w of
                   Inl e \<Rightarrow> (Inl e, scrolled)
                 | Inr listings \<Rightarrow>
                     (let (final, events) =
                            listing_loop pf max_results (slice_to listings max_results) results
                      in (Inr final, scrolled @ events))))"

definition scrape_google_maps_sync ::
  "(str \<Rightarrow> 'f option) \<Rightarrow> world \<Rightarrow> str \<Rightarrow> str \<Rightarrow> int \<Rightarrow>
   (exn + 'f business_data list) \<times> event list" where
  "scrape_google_maps_sync pf w keywords location max_results =
     (let (outcome, events) = scrape_body pf w keywords location max_results
      in case quit w of Some e \<Rightarrow> (Inl e, events) | None \<Rightarrow> (outcome, events))"

section \<open>Sessions (main.py)\<close>

datatype status = Idle | Running | Completed | Error

record 'f session =
  session_id :: str
  s_keywords :: str
  s_location :: str
  s_max_results :: int
  status :: status
  completed :: int
  total :: int
  results :: "'f business_data list"
  error_message :: "str option"
  start_time :: "nat option"
  end_time :: "nat option"

definition ScrapeSession :: "str \<Rightarrow> str \<Rightarrow> str \<Rightarrow> int \<Rightarrow> 'f session" where
  "ScrapeSession sid keywords location max_results =
     \<lparr> session_id = sid, s_keywords = keywords, s_location = location,
       s_max_results = max_results, status = Idle, completed = 0, total = max_results,
       results = [], error_message = None, start_time = None, end_time = None \<rparr>"

text \<open>
  \<open>run_scraping_task\<close> changes the session by assignments to its fields; each one is an
  assignment, and the run is the list of its assignments in program order. \<open>str_exn\<close> is Python's
  \<open>str(e)\<close>; \<open>t0\<close> and \<open>t1\<close> are the two readings of the clock.
\<close>

datatype 'f assignment =
    Set_status status
  | Set_start_time nat
  | Set_completed int
  | Set_total int
  | Set_results "'f business_data list"
  | Set_error_message str
  | Set_end_time nat

fun assign :: "'f session \<Rightarrow> 'f assignment \<Rightarrow> 'f session" where
  "assign s (Set_status x) = s\<lparr>status := x\<rparr>"
| "assign s (Set_start_time t) = s\<lparr>start_time := Some t\<rparr>"
| "assign s (Set_completed n) = s\<lparr>completed := n\<rparr>"
| "assign s (Set_total n) = s\<lparr>total := n\<rparr>"
| "assign s (Set_results rs) = s\<lparr>results := rs\<rparr>"
| "assign s (Set_error_message m) = s\<lparr>error_message := Some m\<rparr>"
| "assign s (Set_end_time t) = s\<lparr>end_time := Some t\<rparr>"

fun progress_callback :: "event \<Rightarrow> 'f assignment list" where
  "progress_callback (Progress c t) = [Set_completed c, Set_total t]"
| "progress_callback (Scroll_iteration i) = []"

definition on_error :: "(exn \<Rightarrow> str) \<Rightarrow> nat \<Rightarrow> exn \<Rightarrow> 'f assignment list" where
  "on_error str_exn t1 e = [Set_status Error, Set_error_message (str_exn e), Set_end_time t1]"

definition run_scraping_task_assignments ::
  "(exn \<Rightarrow> str) \<Rightarrow> (str \<Rightarrow> 'f option) \<Rightarrow> world \<Rightarrow> nat \<Rightarrow> nat \<Rightarrow> 'f session \<Rightarrow> 'f assignment list" where
  "run_scraping_task_assignments str_exn pf w t0 t1 s =
     [Set_status Running, Set_start_time t0] @
     (case constructor_fault w of
        Some e \<Rightarrow> on_error str_exn t1 e
      | None \<Rightarrow>
          (let (outcome, events) =
                 scrape_google_maps_sync pf w (s_keywords s) (s_location s) (s_max_results s)
           in concat (map progress_callback events) @
              (case outcome of
                 Inl e \<Rightarrow> on_error str_exn t1 e
               | Inr rs \<Rightarrow> [Set_results rs, Set_status Completed, Set_end_time t1])))"

text \<open>The session after each assignment of a run, the first element being the session before.\<close>

fun session_trace :: "'f session \<Rightarrow> 'f assignment list \<Rightarrow> 'f session list" where
  "session_trace s [] = [s]"
| "session_trace s (x # xs) = s # session_trace (assign s x) xs"

definition run_scraping_task ::
  "(exn \<Rightarrow> str) \<Rightarrow> (str \<Rightarrow> 'f option) \<Rightarrow> world \<Rightarrow> nat \<Rightarrow> nat \<Rightarrow> 'f session \<Rightarrow> 'f session" where
  "run_scraping_task str_exn pf w t0 t1 s =
     foldl assign s (run_scraping_task_assignments str_exn pf w t0 t1 s)"

section \<open>The session API (main.py)\<close>

text \<open>
  The registry \<open>scraping_sessions\<close> is a dictionary from session identifiers to sessions;
  \<open>background_tasks\<close> lists the sessions whose task has been scheduled and not yet run.
\<close>

record 'f app =
  scraping_sessions :: "str \<rightharpoonup> 'f session"
  background_tasks :: "str list"

record ScrapeRequest =
  r_keywords :: str
  r_location :: str
  r_max_results :: int

record start_response =
  started_session_id :: str
  started_status :: str

text \<open>
  The \<open>try\<close> block of \<open>start_scraping\<close>; \<open>uuid\<close> is the identifier that
  \<open>uuid.uuid4()\<close> gives.
\<close>

definition start_scraping_try ::
  "str \<Rightarrow> ScrapeRequest \<Rightarrow> 'f app \<Rightarrow> (exn + start_response) \<times> 'f app" where
  "start_scraping_try uuid request app =
     (if r_keywords request = [] \<or> r_location request = [] then
        (Inl (HTTPException 400 (py ''Keywords and location are required'')), app)
      else if r_max_results request \<le> 0 \<or> r_max_results request > 500 then
        (Inl (HTTPException 400 (py ''Max results must be between 1 and 500'')), app)
      else
        (let sid = uuid;
             s = ScrapeSession sid (r_keywords request) (r_location request) (r_max_results request);
             app' = app\<lparr> scraping_sessions := (scraping_sessions app)(sid \<mapsto> s),
                         background_tasks := background_tasks app @ [sid] \<rparr>
         in (Inr \<lparr> started_session_id = sid, started_status = py ''started'' \<rparr>, app')))"

text \<open>The handler \<open>except Exception as e: raise HTTPException(500, str(e))\<close> around it.\<close>

definition start_scraping ::
  "(exn \<Rightarrow> str) \<Rightarrow> str \<Rightarrow> ScrapeRequest \<Rightarrow> 'f app \<Rightarrow> (exn + start_response) \<times> 'f app" where
  "start_scraping str_exn uuid request app =
     (case start_scraping_try uuid request app of
        (Inl e, app') \<Rightarrow> (Inl (HTTPException 500 (str_exn e)), app')
      | (Inr r, app') \<Rightarrow> (Inr r, app'))"

record 'f results_response =
  res_session_id :: str
  res_keywords :: str
  res_location :: str
  total_results :: int
  res_results :: "'f business_data list"

definition get_results :: "'f app \<Rightarrow> str \<Rightarrow> exn + 'f results_response" where
  "get_results app sid =
     (case scraping_sessions app sid of
        None \<Rightarrow> Inl (HTTPException 404 (py ''Session not found''))
      | Some s \<Rightarrow>
          if status s \<noteq> Completed then Inl (HTTPException 400 (py ''Scraping not completed yet''))
          else Inr \<lparr> res_session_id = sid, res_keywords = s_keywords s,
                     res_location = s_location s, total_results = int (length (results s)),
                     res_results = results s \<rparr>)"

record file_response =
  path :: str
  filename :: str
  media_type :: str

text \<open>
  \<open>create_csv\<close> is \<open>create_csv_file\<close> of utils.py, which writes the file with pandas and
  returns its path or raises; \<open>save_json\<close> is the writing of the JSON file. Both are
  parameters: the claims do not depend on the content of the files.
\<close>

definition download_csv ::
  "('f business_data list \<Rightarrow> str \<Rightarrow> str \<Rightarrow> exn + str) \<Rightarrow> 'f app \<Rightarrow> str \<Rightarrow> exn + file_response" where
  "download_csv create_csv app sid =
     (case scraping_sessions app sid of
        None \<Rightarrow> Inl (HTTPException 404 (py ''Session not found''))
      | Some s \<Rightarrow>
          if status s \<noteq> Completed then Inl (HTTPException 400 (py ''Scraping not completed yet''))
          else if results s = [] then Inl (HTTPException 400 (py ''No results to download''))
          else
            bind (create_csv (results s) (s_keywords s) (s_location s)) (\<lambda>csv_filename.
            Inr \<lparr> path = csv_filename,
                  filename = py ''google_maps_data_'' @ s_keywords s @ py ''_'' @ s_location s @ py ''.csv'',
                  media_type = py ''text/csv'' \<rparr>))"

definition download_json ::
  "(str \<Rightarrow> 'f session \<Rightarrow> exn + unit) \<Rightarrow> 'f app \<Rightarrow> str \<Rightarrow> exn + file_response" where
  "download_json save_json app sid =
     (case scraping_sessions app sid of
        None \<Rightarrow> Inl (HTTPException 404 (py ''Session not found''))
      | Some s \<Rightarrow>
          if status s \<noteq> Completed then Inl (HTTPException 400 (py ''Scraping not completed yet''))
          else if results s = [] then Inl (HTTPException 400 (py ''No results to download''))
          else
            (let json_filename = py ''temp/google_maps_data_'' @ sid @ py ''.json'' in
             bind (save_json json_filename s) (\<lambda>_.
             Inr \<lparr> path = json_filename,
                   filename = py ''google_maps_data_'' @ s_keywords s @ py ''_'' @ s_location s @ py ''.json'',
                   media_type = py ''application/json'' \<rparr>)))"

section \<open>Notions of the specification\<close>

text \<open>
  The first whitespace-delimited token of a text, in the words of the specification: skip
  the leading whitespace, then read up to the next whitespace. It is empty exactly when the
  text has no token.
\<close>

definition first_whitespace_token :: "str \<Rightarrow> str" where
  "first_whitespace_token s = takeWhile (\<lambda>c. \<not> isspace c) (dropWhile isspace s)"

text \<open>\<open>parseRating\<close> as the specification words it.\<close>

definition parseRating :: "(str \<Rightarrow> 'f::zero option) \<Rightarrow> str \<Rightarrow> 'f" where
  "parseRating pf s =
     (let tok = first_whitespace_token s
      in if tok = [] then 0 else (case pf tok of Some v \<Rightarrow> v | None \<Rightarrow> 0))"

text \<open>
  Field \<open>k\<close> (counted from 0) of a text cut at the character \<open>d\<close>, absent when the text
  has fewer fields.
\<close>

fun nth_field :: "'a \<Rightarrow> 'a list \<Rightarrow> nat \<Rightarrow> 'a list option" where
  "nth_field d s 0 = Some (takeWhile (\<lambda>c. c \<noteq> d) s)"
| "nth_field d s (Suc k) =
     (if d \<in> set s then nth_field d (tl (dropWhile (\<lambda>c. c \<noteq> d) s)) k else None)"

text \<open>
  \<open>parseCoordinates\<close> as the specification words it: the second segment of the URL cut at
  \<open>@\<close> (code point 64), its first two fields cut at the comma (44), both parsed; absent when
  the marker is missing, when there are fewer than two fields, or when a field is no number.
\<close>

definition parseCoordinates :: "(str \<Rightarrow> 'f option) \<Rightarrow> str \<Rightarrow> ('f \<times> 'f) option" where
  "parseCoordinates pf url =
     (case nth_field 64 url 1 of
        None \<Rightarrow> None
      | Some segment \<Rightarrow>
          (case (nth_field 44 segment 0, nth_field 44 segment 1) of
             (Some a, Some b) \<Rightarrow>
               (case (pf a, pf b) of (Some lat, Some lng) \<Rightarrow> Some (lat, lng) | _ \<Rightarrow> None)
           | _ \<Rightarrow> None))"

text \<open>The dictionary that stands for an optional pair of coordinates.\<close>

definition coords_dict :: "('f \<times> 'f) option \<Rightarrow> (str \<times> 'f) list" where
  "coords_dict r =
     (case r of None \<Rightarrow> [] | Some (lat, lng) \<Rightarrow> [(py ''latitude'', lat), (py ''longitude'', lng)])"


text \<open>
  The state machine of the specification: \<open>idle \<rightarrow> running \<rightarrow> {completed | error}\<close>. An
  assignment to a session either leaves the status as it is or makes one of these
  transitions; completed and error are terminal.
\<close>

definition terminal :: "status \<Rightarrow> bool" where
  "terminal st \<longleftrightarrow> st = Completed \<or> st = Error"

definition transition :: "status \<Rightarrow> status \<Rightarrow> bool" where
  "transition a b \<longleftrightarrow> (a = Idle \<and> b = Running) \<or> (a = Running \<and> (b = Completed \<or> b = Error))"

definition status_step :: "status \<Rightarrow> status \<Rightarrow> bool" where
  "status_step a b \<longleftrightarrow> a = b \<or> transition a b"

definition keeps_terminal :: "status \<Rightarrow> status \<Rightarrow> bool" where
  "keeps_terminal a b \<longleftrightarrow> (terminal a \<longrightarrow> b = a)"

text \<open>
  A listing counts as opened when its click does not raise; its record is what the panel
  reader returns on the panel the click opens.
\<close>

definition opened :: "listing \<Rightarrow> bool" where
  "opened l = (case listing_click l of Inl e \<Rightarrow> False | Inr panel \<Rightarrow> True)"

definition record_of :: "(str \<Rightarrow> 'f option) \<Rightarrow> listing \<Rightarrow> 'f business_data" where
  "record_of pf l =
     (case listing_click l of Inl e \<Rightarrow> Empty_dict | Inr panel \<Rightarrow> extract_business_details pf panel)"

section \<open>Example inputs\<close>

text \<open>
  A number parser that knows the three numerals of the specification's examples, with
  rationals for the values.
\<close>

definition sample_float :: "str \<Rightarrow> rat option" where
  "sample_float s =
     (if s = py ''4.5'' then Some (45 / 10)
      else if s = py ''37.422'' then Some (37422 / 1000)
      else if s = py ''-122.084'' then Some (- 122084 / 1000)
      else None)"

text \<open>
  A page on which every element is found and reads as the text \<open>t\<close>, which is also the
  current URL; and a page on which nothing can be found.
\<close>

definition text_element :: "str \<Rightarrow> element" where
  "text_element t = \<lparr> elem_text = Inr t, get_attribute = (\<lambda>a. Inr t), click = Inr () \<rparr>"

definition stale_element :: element where
  "stale_element =
     \<lparr> elem_text = Inl StaleElementReferenceException,
       get_attribute = (\<lambda>a. Inl StaleElementReferenceException),
       click = Inl StaleElementReferenceException \<rparr>"

definition text_page :: "str \<Rightarrow> page" where
  "text_page t =
     \<lparr> find_element = (\<lambda>sel. Inr (text_element t)),
       wait_until_present = (\<lambda>sel. Inr (text_element t)),
       find_rows = Inr [],
       current_url = Inr t \<rparr>"

definition stale_page :: page where
  "stale_page =
     \<lparr> find_element = (\<lambda>sel. Inr stale_element),
       wait_until_present = (\<lambda>sel. Inr stale_element),
       find_rows = Inr [],
       current_url = Inl (WebDriverException (py ''disconnected'')) \<rparr>"

definition blank_page :: page where
  "blank_page =
     \<lparr> find_element = (\<lambda>sel. Inl NoSuchElementException),
       wait_until_present = (\<lambda>sel. Inl TimeoutException),
       find_rows = Inr [],
       current_url = Inl (WebDriverException (py ''disconnected'')) \<rparr>"

text \<open>The example texts of the specification; 183 is the middle dot U+00B7.\<close>

definition cafe_text :: str where
  "cafe_text = py ''Cafe '' @ [183] @ py '' Bakery '' @ [183] @ py '' Coffee shop''"

definition example_url :: str where
  "example_url = py ''https://www.google.com/maps/place/X/@37.422,-122.084,15z''"

text \<open>A rendering of exceptions as text, standing for Python's \<open>str(e)\<close>.\<close>

fun exn_text :: "exn \<Rightarrow> str" where
  "exn_text (HTTPException code detail) = detail"
| "exn_text (WebDriverException msg) = msg"
| "exn_text NoSuchElementException = py ''no such element''"
| "exn_text StaleElementReferenceException = py ''stale element reference''"
| "exn_text TimeoutException = py ''timeout''"
| "exn_text IndexError = py ''list index out of range''"
| "exn_text ValueError = py ''could not convert string to float''"

text \<open>Requests, sessions and registries for the API.\<close>

definition cafes_request :: "int \<Rightarrow> ScrapeRequest" where
  "cafes_request cap = \<lparr> r_keywords = py ''cafes'', r_location = py ''Pune'', r_max_results = cap \<rparr>"

definition no_keywords_request :: ScrapeRequest where
  "no_keywords_request = \<lparr> r_keywords = [], r_location = py ''Pune'', r_max_results = 10 \<rparr>"

definition empty_app :: "rat app" where
  "empty_app = \<lparr> scraping_sessions = Map.empty, background_tasks = [] \<rparr>"

definition cafes_session :: "status \<Rightarrow> rat business_data list \<Rightarrow> rat session" where
  "cafes_session st rs =
     (ScrapeSession (py ''s1'') (py ''cafes'') (py ''Pune'') 10)\<lparr> status := st, results := rs \<rparr>"

definition app_with :: "rat session \<Rightarrow> rat app" where
  "app_with s = \<lparr> scraping_sessions = [session_id s \<mapsto> s], background_tasks = [] \<rparr>"

definition csv_ok :: "rat business_data list \<Rightarrow> str \<Rightarrow> str \<Rightarrow> exn + str" where
  "csv_ok rs keywords location = Inr (py ''temp/google_maps_data.csv'')"

definition json_ok :: "str \<Rightarrow> rat session \<Rightarrow> exn + unit" where
  "json_ok file s = Inr ()"

text \<open>
  Worlds for the engine. In \<open>full_feed\<close> every scroll succeeds and leaves 45 listings
  loaded in the results feed. \<open>ten_listings_world\<close> finds ten listings that all open, two
  of them on a panel whose headline never appears. \<open>unclickable_world\<close> finds one listing
  whose click raises.
\<close>

definition full_feed :: "nat \<Rightarrow> scroll_outcome" where
  "full_feed i = Scrolled 45"

definition good_listing :: listing where
  "good_listing = \<lparr> listing_click = Inr (text_page (py ''Blue Cafe'')) \<rparr>"

definition unreadable_listing :: listing where
  "unreadable_listing = \<lparr> listing_click = Inr blank_page \<rparr>"

definition unclickable_listing :: listing where
  "unclickable_listing = \<lparr> listing_click = Inl StaleElementReferenceException \<rparr>"

definition listings_world :: "listing list \<Rightarrow> world" where
  "listings_world ls =
     \<lparr> constructor_fault = None, search = (\<lambda>q. None), scroll = full_feed,
       find_listings = Inr ls, quit = None \<rparr>"

definition ten_listings :: "listing list" where
  "ten_listings =
     [good_listing, good_listing, unreadable_listing, good_listing, good_listing,
      good_listing, unreadable_listing, good_listing, good_listing, good_listing]"

definition ten_listings_world :: world where
  "ten_listings_world = listings_world ten_listings"

definition unclickable_world :: world where
  "unclickable_world = listings_world [unclickable_listing]"

definition no_search_box_world :: world where
  "no_search_box_world =
     \<lparr> constructor_fault = None, search = (\<lambda>q. Some TimeoutException), scroll = full_feed,
       find_listings = Inr [], quit = None \<rparr>"

definition fresh_session :: "int \<Rightarrow> rat session" where
  "fresh_session cap = ScrapeSession (py ''s1'') (py ''cafes'') (py ''Pune'') cap"

section \<open>Splitting and trimming\<close>




lemma split_from_char:
  "split_from d [] cur s =
     (cur @ takeWhile (\<lambda>c. c \<noteq> d) s) #
     (if d \<in> set s then split_from d [] [] (tl (dropWhile (\<lambda>c. c \<noteq> d) s)) else [])"
  by (induction s arbitrary: cur) auto

lemma index_split_char:
  "index (split_from d [] [] s) k = (case nth_field d s k of None \<Rightarrow> Inl IndexError | Some f \<Rightarrow> Inr f)"
proof (induction k arbitrary: s)
  case 0
  show ?case by (subst split_from_char) (simp add: index_def)
next
  case (Suc k)
  show ?case
  proof (cases "d \<in> set s")
    case True
    have "index (split_from d [] [] s) (Suc k) = index (split_from d [] [] (tl (dropWhile (\<lambda>c. c \<noteq> d) s))) k"
      by (subst split_from_char) (simp add: index_def True)
    with Suc True show ?thesis by simp
  next
    case False
    then show ?thesis by (subst split_from_char) (simp add: index_def)
  qed
qed

lemma index_take2:
  "index (slice_to xs 2) 0 = index xs 0" "index (slice_to xs 2) 1 = index xs 1"
  by (auto simp: index_def slice_to_def)

lemma split_ws_from_nonempty:
  "cur \<noteq> [] \<Longrightarrow> \<exists>rest. split_ws_from cur s = (cur @ takeWhile (\<lambda>c. \<not> isspace c) s) # rest"
proof (induction s arbitrary: cur)
  case Nil then show ?case by simp
next
  case (Cons c cs)
  show ?case
  proof (cases "isspace c")
    case True with Cons.prems show ?thesis by simp
  next
    case False
    have "cur @ [c] \<noteq> []" by simp
    from Cons.IH[OF this] False show ?thesis by simp
  qed
qed

lemma split_ws_blank: "dropWhile isspace s = [] \<Longrightarrow> split_ws_from [] s = []"
  by (induction s) (auto split: if_splits)

lemma split_ws_token:
  "dropWhile isspace s \<noteq> [] \<Longrightarrow> \<exists>rest. split_ws_from [] s = first_whitespace_token s # rest"
proof (induction s)
  case Nil then show ?case by simp
next
  case (Cons c cs)
  show ?case
  proof (cases "isspace c")
    case True with Cons show ?thesis by (simp add: first_whitespace_token_def)
  next
    case False
    then show ?thesis
      using split_ws_from_nonempty[of "[c]" cs] by (simp add: first_whitespace_token_def)
  qed
qed

lemma first_whitespace_token_empty: "first_whitespace_token s = [] \<longleftrightarrow> dropWhile isspace s = []"
proof (cases "dropWhile isspace s")
  case Nil then show ?thesis unfolding first_whitespace_token_def by (simp only: takeWhile.simps)
next
  case (Cons c cs)
  then have "\<not> isspace c" using hd_dropWhile[of isspace s] by simp
  with Cons show ?thesis by (simp add: first_whitespace_token_def)
qed

lemma index_split_ws:
  "index (split_ws s) 0 = (if first_whitespace_token s = [] then Inl IndexError else Inr (first_whitespace_token s))"
proof (cases "dropWhile isspace s = []")
  case True
  then show ?thesis by (simp add: split_ws_blank first_whitespace_token_empty index_def split_ws_def)
next
  case False
  then obtain rest where "split_ws_from [] s = first_whitespace_token s # rest" using split_ws_token by blast
  with False show ?thesis by (simp add: first_whitespace_token_empty index_def split_ws_def)
qed





section \<open>The field extractors never raise\<close>

text \<open>
  C6. For every selector and attribute name, \<open>_safe_extract_text\<close> and
  \<open>_safe_extract_attribute\<close> return a string on every path: the trimmed text of the
  element found, respectively the value of its attribute, when the driver answers; the
  empty string when the element is not found, and the empty string when the element is
  found and reading it faults (a stale element or any other fault of the driver).
\<close>

theorem safe_extract_never_raises:
  "(find_element drv selector = Inr el \<and> elem_text el = Inr t \<longrightarrow> safe_extract_text drv selector = strip t) \<and>
   ((\<exists>e. find_element drv selector = Inl e) \<longrightarrow> safe_extract_text drv selector = []) \<and>
   (find_element drv selector = Inr el \<and> (\<exists>e. elem_text el = Inl e) \<longrightarrow> safe_extract_text drv selector = []) \<and>
   (find_element drv selector = Inr el \<and> get_attribute el attribute = Inr v \<longrightarrow>
      safe_extract_attribute drv selector attribute = v) \<and>
   ((\<exists>e. find_element drv selector = Inl e) \<longrightarrow> safe_extract_attribute drv selector attribute = []) \<and>
   (find_element drv selector = Inr el \<and> (\<exists>e. get_attribute el attribute = Inl e) \<longrightarrow>
      safe_extract_attribute drv selector attribute = [])"
  by (auto simp: safe_extract_text_def safe_extract_attribute_def bind_def try_except_def)


theorem safe_extract_never_raises_witness:
  "safe_extract_text (text_page (py ''  Blue Cafe '')) (py ''div.fontHeadlineSmall'') = py ''Blue Cafe'' \<and>
   safe_extract_text blank_page (py ''div.fontHeadlineSmall'') = [] \<and>
   safe_extract_text stale_page (py ''div.fontHeadlineSmall'') = [] \<and>
   safe_extract_attribute (text_page (py ''http://x.org'')) (py ''a'') (py ''href'') = py ''http://x.org'' \<and>
   safe_extract_attribute blank_page (py ''a'') (py ''href'') = [] \<and>
   safe_extract_attribute stale_page (py ''a'') (py ''href'') = []"
proof -
  have s: "strip (py ''  Blue Cafe '') = py ''Blue Cafe''"
    by (simp add: strip_def py_def isspace_def)
  show ?thesis
    using safe_extract_never_raises
            [of "text_page (py ''  Blue Cafe '')" "py ''div.fontHeadlineSmall''"
                "text_element (py ''  Blue Cafe '')" "py ''  Blue Cafe ''" "py ''href''" "py ''  Blue Cafe ''"]
          safe_extract_never_raises
            [of "text_page (py ''http://x.org'')" "py ''a''"
                "text_element (py ''http://x.org'')" "py ''http://x.org''" "py ''href''" "py ''http://x.org''"]
          safe_extract_never_raises
            [of blank_page "py ''div.fontHeadlineSmall''" stale_element "[]" "py ''href''" "[]"]
          safe_extract_never_raises
            [of blank_page "py ''a''" stale_element "[]" "py ''href''" "[]"]
          safe_extract_never_raises
            [of stale_page "py ''div.fontHeadlineSmall''" stale_element "[]" "py ''href''" "[]"]
          safe_extract_never_raises
            [of stale_page "py ''a''" stale_element "[]" "py ''href''" "[]"]
    by (simp add: s text_page_def text_element_def blank_page_def stale_page_def stale_element_def)
qed

section \<open>Categories\<close>





text \<open>
  The separator of the source does not occur in a text whose categories are separated by
  the middle dot alone, so such a text comes back as one category.
\<close>

lemma extract_categories_middle_dot:
  "extract_categories (text_page cafe_text) = [cafe_text]"
  by (simp add: extract_categories_def text_page_def text_element_def bind_def try_except_def
        split_def category_separator_def py_def strip_def isspace_def cafe_text_def)

section \<open>Coordinates\<close>

text \<open>
  C4. For every URL, \<open>_extract_coordinates\<close> returns what \<open>parseCoordinates\<close> of the
  specification describes: the pair parsed from the first two comma-separated fields of
  the second \<open>@\<close>-segment, and the empty dictionary (never an exception) when the marker is
  missing, when there are fewer than two fields, when a field is no number, or when the
  URL cannot be read.
\<close>

theorem extract_coordinates_refines:
  "extract_coordinates pf drv =
     (case current_url drv of Inl e \<Rightarrow> [] | Inr url \<Rightarrow> coords_dict (parseCoordinates pf url))"
proof (cases "current_url drv")
  case (Inl e)
  then show ?thesis by (simp add: extract_coordinates_def bind_def try_except_def)
next
  case (Inr url)
  show ?thesis
  proof (cases "64 \<in> set url")
    case False
    with Inr show ?thesis
      by (simp add: extract_coordinates_def bind_def try_except_def parseCoordinates_def coords_dict_def)
  next
    case True
    then obtain segment where seg: "nth_field 64 url 1 = Some segment" by simp
    then have i1: "index (split_from 64 [] [] url) 1 = Inr segment"
      by (simp add: index_split_char del: nth_field.simps One_nat_def)
    show ?thesis
      using Inr True seg i1
      by (simp add: extract_coordinates_def bind_def try_except_def parseCoordinates_def coords_dict_def
            split_def index_take2 index_split_char float_def Let_def
          del: nth_field.simps One_nat_def split: option.splits)
  qed
qed


theorem extract_coordinates_refines_witness:
  "extract_coordinates sample_float (text_page example_url)
     = [(py ''latitude'', 37422 / 1000), (py ''longitude'', - 122084 / 1000)] \<and>
   extract_coordinates sample_float (text_page (py ''https://www.google.com/maps'')) = [] \<and>
   extract_coordinates sample_float (text_page (py ''maps/@north,-122.084'')) = [] \<and>
   extract_coordinates sample_float (text_page (py ''maps/@37.422'')) = [] \<and>
   extract_coordinates sample_float blank_page = []"
  using extract_coordinates_refines [of sample_float "text_page example_url"]
        extract_coordinates_refines [of sample_float "text_page (py ''https://www.google.com/maps'')"]
        extract_coordinates_refines [of sample_float "text_page (py ''maps/@north,-122.084'')"]
        extract_coordinates_refines [of sample_float "text_page (py ''maps/@37.422'')"]
        extract_coordinates_refines [of sample_float blank_page]
  by (simp add: text_page_def blank_page_def example_url_def parseCoordinates_def coords_dict_def
        sample_float_def py_def)

section \<open>Ratings\<close>

text \<open>
  C5. For every text, \<open>parse_rating\<close> (and \<open>_parse_rating\<close> of the database layer)
  returns a number and never raises: the parse of the first whitespace-delimited token when
  that succeeds, and zero when the text has no token or the token is no number.
\<close>

theorem parse_rating_refines:
  "parse_rating pf s = parseRating pf s \<and> db_parse_rating pf s = parseRating pf s"
  by (simp add: parse_rating_def db_parse_rating_def parseRating_def index_split_ws bind_def
        try_except_def float_def split: option.splits)

theorem parse_rating_refines_witness:
  "parse_rating sample_float (py ''4.5 stars'') = 45 / 10 \<and>
   parse_rating sample_float [] = 0 \<and>
   parse_rating sample_float (py ''  no rating'') = 0 \<and>
   db_parse_rating sample_float (py ''4.5 stars'') = 45 / 10"
  using parse_rating_refines [of sample_float "py ''4.5 stars''"]
        parse_rating_refines [of sample_float "[]"]
        parse_rating_refines [of sample_float "py ''  no rating''"]
  by (simp add: parseRating_def first_whitespace_token_def sample_float_def py_def isspace_def)

section \<open>The session API\<close>

text \<open>
  C8. For every session identifier, \<open>get_results\<close> fails with 404 (not found) when the
  registry does not know the identifier, fails with 400 (not ready) when the session's
  status is not completed, and returns the session's records when it is completed; it
  returns records in no other case.
\<close>

theorem get_results_cases:
  "(scraping_sessions app sid = None \<longrightarrow>
      get_results app sid = Inl (HTTPException 404 (py ''Session not found''))) \<and>
   (scraping_sessions app sid = Some s \<and> status s \<noteq> Completed \<longrightarrow>
      get_results app sid = Inl (HTTPException 400 (py ''Scraping not completed yet''))) \<and>
   (scraping_sessions app sid = Some s \<and> status s = Completed \<longrightarrow>
      (\<exists>r. get_results app sid = Inr r \<and> res_results r = results s)) \<and>
   ((\<exists>r. get_results app sid = Inr r) \<longrightarrow>
      (\<exists>s'. scraping_sessions app sid = Some s' \<and> status s' = Completed))"
  by (auto simp: get_results_def split: option.splits if_splits)

theorem get_results_cases_witness:
  "get_results empty_app (py ''s1'') = Inl (HTTPException 404 (py ''Session not found'')) \<and>
   get_results (app_with (cafes_session Running [])) (py ''s1'')
     = Inl (HTTPException 400 (py ''Scraping not completed yet'')) \<and>
   get_results (app_with (cafes_session Error [])) (py ''s1'')
     = Inl (HTTPException 400 (py ''Scraping not completed yet'')) \<and>
   (\<exists>r. get_results (app_with (cafes_session Completed [Empty_dict])) (py ''s1'') = Inr r \<and>
        res_results r = [Empty_dict])"
proof -
  have sid: "session_id (cafes_session st rs) = py ''s1''" for st rs
    by (simp add: cafes_session_def ScrapeSession_def)
  have st: "status (cafes_session st rs) = st" "results (cafes_session st rs) = rs" for st rs
    by (simp_all add: cafes_session_def)
  have look: "scraping_sessions (app_with (cafes_session st rs)) (py ''s1'') = Some (cafes_session st rs)"
    for st rs
    by (simp add: app_with_def sid)
  have none: "scraping_sessions empty_app (py ''s1'') = None"
    by (simp add: empty_app_def)
  show ?thesis
    using get_results_cases [of empty_app "py ''s1''" "cafes_session Running []"]
          get_results_cases [of "app_with (cafes_session Running [])" "py ''s1''" "cafes_session Running []"]
          get_results_cases [of "app_with (cafes_session Error [])" "py ''s1''" "cafes_session Error []"]
          get_results_cases [of "app_with (cafes_session Completed [Empty_dict])" "py ''s1''"
                                "cafes_session Completed [Empty_dict]"]
    by (simp add: look none st)
qed

text \<open>
  C10. For a completed session without records, both downloads fail with the 400 error
  "No results to download", while \<open>get_results\<close> on the same session succeeds with the
  empty list; a download that succeeds comes from a completed session with at least one
  record.
\<close>

theorem downloads_need_a_record:
  "(scraping_sessions app sid = Some s \<and> status s = Completed \<and> results s = [] \<longrightarrow>
      download_csv create_csv app sid = Inl (HTTPException 400 (py ''No results to download'')) \<and>
      download_json save_json app sid = Inl (HTTPException 400 (py ''No results to download'')) \<and>
      (\<exists>r. get_results app sid = Inr r \<and> res_results r = [] \<and> total_results r = 0)) \<and>
   ((\<exists>r. download_csv create_csv app sid = Inr r) \<longrightarrow>
      (\<exists>s'. scraping_sessions app sid = Some s' \<and> status s' = Completed \<and> results s' \<noteq> [])) \<and>
   ((\<exists>r. download_json save_json app sid = Inr r) \<longrightarrow>
      (\<exists>s'. scraping_sessions app sid = Some s' \<and> status s' = Completed \<and> results s' \<noteq> []))"
  by (auto simp: download_csv_def download_json_def get_results_def bind_def
           split: option.splits if_splits sum.splits)

theorem downloads_need_a_record_witness:
  "download_csv csv_ok (app_with (cafes_session Completed [])) (py ''s1'')
     = Inl (HTTPException 400 (py ''No results to download'')) \<and>
   download_json json_ok (app_with (cafes_session Completed [])) (py ''s1'')
     = Inl (HTTPException 400 (py ''No results to download'')) \<and>
   (\<exists>r. get_results (app_with (cafes_session Completed [])) (py ''s1'') = Inr r \<and>
        res_results r = [] \<and> total_results r = 0) \<and>
   (\<exists>r. download_csv csv_ok (app_with (cafes_session Completed [Empty_dict])) (py ''s1'') = Inr r) \<and>
   (\<exists>r. download_json json_ok (app_with (cafes_session Completed [Empty_dict])) (py ''s1'') = Inr r) \<and>
   results (cafes_session Completed [Empty_dict]) \<noteq> []"
proof -
  have sid: "session_id (cafes_session st rs) = py ''s1''" for st rs
    by (simp add: cafes_session_def ScrapeSession_def)
  have st: "status (cafes_session st rs) = st" "results (cafes_session st rs) = rs" for st rs
    by (simp_all add: cafes_session_def)
  have look: "scraping_sessions (app_with (cafes_session st rs)) (py ''s1'') = Some (cafes_session st rs)"
    for st rs
    by (simp add: app_with_def sid)
  have csv: "\<exists>r. download_csv csv_ok (app_with (cafes_session Completed [Empty_dict])) (py ''s1'') = Inr r"
    by (simp add: download_csv_def look st csv_ok_def bind_def)
  have json: "\<exists>r. download_json json_ok (app_with (cafes_session Completed [Empty_dict])) (py ''s1'') = Inr r"
    by (simp add: download_json_def look st json_ok_def bind_def)
  show ?thesis
    using downloads_need_a_record [of "app_with (cafes_session Completed [])" "py ''s1''"
                                      "cafes_session Completed []" csv_ok json_ok]
          downloads_need_a_record [of "app_with (cafes_session Completed [Empty_dict])" "py ''s1''"
                                      "cafes_session Completed [Empty_dict]" csv_ok json_ok]
          csv json
    by (simp add: look st)
qed

text \<open>
  C7, what the code does at an invalid request. The validation raises the 400 error inside
  the handler's own \<open>try\<close> block, whose \<open>except Exception\<close> catches it and raises a 500
  error in its place, with \<open>str(e)\<close> of the caught error as detail: a request without
  keywords, with cap 0 or with cap 501 is answered by status 500, and no session is stored.
\<close>

theorem start_scraping_rejects_with_500:
  "start_scraping str_exn (py ''s1'') no_keywords_request empty_app
     = (Inl (HTTPException 500
               (str_exn (HTTPException 400 (py ''Keywords and location are required'')))),
        empty_app) \<and>
   start_scraping str_exn (py ''s1'') (cafes_request 0) empty_app
     = (Inl (HTTPException 500
               (str_exn (HTTPException 400 (py ''Max results must be between 1 and 500'')))),
        empty_app) \<and>
   start_scraping str_exn (py ''s1'') (cafes_request 501) empty_app
     = (Inl (HTTPException 500
               (str_exn (HTTPException 400 (py ''Max results must be between 1 and 500'')))),
        empty_app)"
  by (simp add: start_scraping_def start_scraping_try_def no_keywords_request_def cafes_request_def
        py_def)

text \<open>
  For every request: an invalid one leaves the registry as it was and is answered by an
  error, a valid one is answered at once with the new identifier, the session stored under
  it is idle and its task is queued, not run.
\<close>

lemma start_scraping_invalid:
  "r_keywords request = [] \<or> r_location request = [] \<or> r_max_results request < 1 \<or> 500 < r_max_results request
   \<Longrightarrow> \<exists>detail. start_scraping str_exn uuid request app = (Inl (HTTPException 500 detail), app)"
  by (auto simp: start_scraping_def start_scraping_try_def)

lemma start_scraping_valid:
  "r_keywords request \<noteq> [] \<Longrightarrow> r_location request \<noteq> [] \<Longrightarrow> 1 \<le> r_max_results request \<Longrightarrow>
   r_max_results request \<le> 500 \<Longrightarrow>
   \<exists>app'. start_scraping str_exn uuid request app
            = (Inr \<lparr> started_session_id = uuid, started_status = py ''started'' \<rparr>, app') \<and>
          scraping_sessions app' uuid
            = Some (ScrapeSession uuid (r_keywords request) (r_location request) (r_max_results request)) \<and>
          background_tasks app' = background_tasks app @ [uuid]"
  by (auto simp: start_scraping_def start_scraping_try_def Let_def)

section \<open>The run of a session\<close>

lemma session_trace_append:
  "session_trace s (xs @ ys) = session_trace s xs @ tl (session_trace (foldl assign s xs) ys)"
  by (induction xs arbitrary: s) (auto, case_tac ys, auto)

lemma status_progress:
  "status (foldl assign s (concat (map progress_callback evs))) = status s"
proof (induction evs arbitrary: s)
  case Nil show ?case by simp
next
  case (Cons ev evs) then show ?case by (cases ev) simp_all
qed

lemma status_trace_progress:
  "map status (session_trace s (concat (map progress_callback evs)))
     = replicate (Suc (length (concat (map progress_callback evs :: 'a assignment list list)))) (status (s :: 'a session))"
proof (induction evs arbitrary: s)
  case Nil show ?case by simp
next
  case (Cons ev evs) then show ?case by (cases ev) simp_all
qed

lemma successively_replicate_same: "successively status_step (replicate n a)"
  by (induction n) (auto simp: successively_Cons status_step_def)

lemma sorted_wrt_replicate_same: "sorted_wrt keeps_terminal (replicate n a)"
  by (induction n) (auto simp: keeps_terminal_def)

lemma session_trace_not_Nil: "session_trace s xs \<noteq> []"
  by (cases xs) simp_all

lemma last_session_trace: "last (session_trace s xs) = foldl assign s xs"
proof (induction xs arbitrary: s)
  case Nil show ?case by simp
next
  case (Cons x xs)
  have "session_trace (assign s x) xs \<noteq> []" by (cases xs) simp_all
  with Cons show ?case by simp
qed

lemma status_run_last:
  "status (run_scraping_task str_exn pf w t0 t1 s)
     = last (map status (session_trace s (run_scraping_task_assignments str_exn pf w t0 t1 s)))"
proof -
  have "session_trace s xs \<noteq> []" for xs :: "'a assignment list"
    by (cases xs) simp_all
  then show ?thesis
    by (simp add: run_scraping_task_def last_map last_session_trace)
qed

lemma monotone_shape:
  assumes "tr = Idle # Running # Running # replicate n Running @ [c, b, b]"
    and "terminal b" and "c = Running \<or> c = b"
  shows "successively status_step tr \<and> sorted_wrt keeps_terminal tr \<and> terminal (last tr)"
proof -
  have "successively status_step (Running # replicate n Running @ [c, b, b]) \<and>
        sorted_wrt keeps_terminal (Running # replicate n Running @ [c, b, b])"
    using assms(2,3)
    by (induction n)
       (auto simp: successively_Cons status_step_def transition_def keeps_terminal_def terminal_def)
  then show ?thesis
    using assms
    by (auto simp: successively_Cons status_step_def transition_def keeps_terminal_def terminal_def)
qed

text \<open>
  C9. In every run of \<open>run_scraping_task\<close> on an idle session, each assignment leaves the
  status as it is or makes a transition of the machine
  \<open>idle \<rightarrow> running \<rightarrow> {completed | error}\<close>; once the status is completed or error, every
  later state of the run has that same status; and the run ends in a terminal status.
\<close>

theorem status_is_monotone:
  assumes idle: "status s = Idle"
  shows "successively status_step
           (map status (session_trace s (run_scraping_task_assignments str_exn pf w t0 t1 s))) \<and>
         sorted_wrt keeps_terminal
           (map status (session_trace s (run_scraping_task_assignments str_exn pf w t0 t1 s))) \<and>
         terminal (status (run_scraping_task str_exn pf w t0 t1 s))"
proof -
  let ?tr = "map status (session_trace s (run_scraping_task_assignments str_exn pf w t0 t1 s))"
  let ?s2 = "foldl assign s [Set_status Running, Set_start_time t0]"
  have s2: "status ?s2 = Running" by simp
  have shape: "successively status_step ?tr \<and> sorted_wrt keeps_terminal ?tr \<and> terminal (last ?tr)"
  proof (cases "constructor_fault w")
    case (Some e)
    have "?tr = Idle # Running # Running # replicate 0 Running @ [Error, Error, Error]"
      using idle Some by (simp add: run_scraping_task_assignments_def on_error_def)
    then show ?thesis
      by (rule monotone_shape) (simp_all add: terminal_def)
  next
    case None
    obtain outcome events where sc:
      "scrape_google_maps_sync pf w (s_keywords s) (s_location s) (s_max_results s) = (outcome, events)"
      by (cases "scrape_google_maps_sync pf w (s_keywords s) (s_location s) (s_max_results s)")
    let ?ps = "concat (map progress_callback events) :: 'a assignment list"
    let ?s3 = "foldl assign ?s2 ?ps"
    have s3: "status ?s3 = Running"
      using status_progress[of ?s2 events] s2 by simp
    have mid: "map status (session_trace ?s2 ?ps) = replicate (Suc (length ?ps)) Running"
      using status_trace_progress[of ?s2 events] s2 by simp
    have front: "map status (session_trace s ([Set_status Running, Set_start_time t0] @ ?ps @ tail))
                   = Idle # Running # Running # replicate (length ?ps) Running
                     @ tl (map status (session_trace ?s3 tail))"
      for tail :: "'a assignment list"
    proof -
      have "map status (session_trace s ([Set_status Running, Set_start_time t0] @ ?ps @ tail))
              = map status (session_trace s [Set_status Running, Set_start_time t0])
                @ tl (map status (session_trace ?s2 ?ps))
                @ tl (map status (session_trace ?s3 tail))"
        by (simp only: session_trace_append map_append map_tl foldl_append tl_append2 session_trace_not_Nil map_is_Nil_conv not_False_eq_True)
      also have "map status (session_trace s [Set_status Running, Set_start_time t0])
                   = [Idle, Running, Running]"
        using idle by simp
      also have "tl (map status (session_trace ?s2 ?ps)) = replicate (length ?ps) Running"
        unfolding mid by simp
      finally show ?thesis by simp
    qed
    show ?thesis
    proof (cases outcome)
      case (Inl e)
      have w: "run_scraping_task_assignments str_exn pf w t0 t1 s
                 = [Set_status Running, Set_start_time t0] @ ?ps @ on_error str_exn t1 e"
        using None sc Inl by (simp add: run_scraping_task_assignments_def)
      have "tl (map status (session_trace ?s3 (on_error str_exn t1 e))) = [Error, Error, Error]"
        by (simp add: on_error_def)
      then have "?tr = Idle # Running # Running # replicate (length ?ps) Running @ [Error, Error, Error]"
        unfolding w front by simp
      then show ?thesis
        by (rule monotone_shape) (simp_all add: terminal_def)
    next
      case (Inr rs)
      have w: "run_scraping_task_assignments str_exn pf w t0 t1 s
                 = [Set_status Running, Set_start_time t0] @ ?ps
                   @ [Set_results rs, Set_status Completed, Set_end_time t1]"
        using None sc Inr by (simp add: run_scraping_task_assignments_def)
      have "tl (map status (session_trace ?s3 [Set_results rs, Set_status Completed, Set_end_time t1]))
              = [status ?s3, Completed, Completed]"
        by simp
      then have "?tr = Idle # Running # Running # replicate (length ?ps) Running
                        @ [Running, Completed, Completed]"
        unfolding w front s3 by simp
      then show ?thesis
        by (rule monotone_shape) (simp_all add: terminal_def)
    qed
  qed
  then show ?thesis
    by (simp only: status_run_last)
qed

theorem status_is_monotone_witness:
  "status (fresh_session 10) = Idle \<and>
   successively status_step
     (map status (session_trace (fresh_session 10)
        (run_scraping_task_assignments exn_text sample_float ten_listings_world 0 1 (fresh_session 10)))) \<and>
   sorted_wrt keeps_terminal
     (map status (session_trace (fresh_session 10)
        (run_scraping_task_assignments exn_text sample_float ten_listings_world 0 1 (fresh_session 10)))) \<and>
   terminal (status (run_scraping_task exn_text sample_float ten_listings_world 0 1 (fresh_session 10))) \<and>
   map status (session_trace (fresh_session 10)
        (run_scraping_task_assignments exn_text sample_float no_search_box_world 0 1 (fresh_session 10)))
     = [Idle, Running, Running, Error, Error, Error]"
proof -
  have idle: "status (fresh_session 10) = Idle"
    by (simp add: fresh_session_def ScrapeSession_def)
  have err: "map status (session_trace (fresh_session 10)
        (run_scraping_task_assignments exn_text sample_float no_search_box_world 0 1 (fresh_session 10)))
     = [Idle, Running, Running, Error, Error, Error]"
    by (simp add: idle run_scraping_task_assignments_def no_search_box_world_def
          scrape_google_maps_sync_def scrape_body_def on_error_def)
  show ?thesis
    using idle err status_is_monotone [OF idle, of exn_text sample_float ten_listings_world 0 1]
    by blast
qed

section \<open>The scroll loop\<close>

text \<open>
  C2, what the code does on a feed that shows 45 listings after every scroll, for the cap
  40. The loop runs \<open>40 // 20 = 2\<close> iterations and publishes \<open>(0, 40)\<close> after each: the
  completed component is \<open>len(results)\<close>, the number of extracted records, which is 0
  during the whole scroll phase, and not the number of listings discovered; so the test
  \<open>results_found >= max_results\<close> never stops the loop although the feed holds more
  listings than the cap after the first scroll.
\<close>

theorem scroll_progress_counts_records:
  "scroll_loop full_feed 40 ([] :: rat business_data list) [0..<nat (40 div 20)]
     = [Scroll_iteration 0, Progress 0 40, Scroll_iteration 1, Progress 0 40] \<and>
   full_feed 0 = Scrolled 45"
  by (simp add: full_feed_def upt_rec)

text \<open>
  In general: every tick of the scroll phase has completed 0; for a positive cap the loop
  runs through its whole range; and it never runs more iterations than the range has.
\<close>

lemma scroll_loop_progress_is_zero:
  "Progress c t \<in> set (scroll_loop sc m [] r) \<Longrightarrow> c = 0 \<and> t = m"
  by (induction r) (auto split: scroll_outcome.splits if_splits)

lemma scroll_loop_never_stops_early:
  "0 < m \<Longrightarrow> [i. Scroll_iteration i \<leftarrow> scroll_loop sc m [] r] = r"
  by (induction r) (auto split: scroll_outcome.splits)

lemma scroll_loop_budget:
  "length [i. Scroll_iteration i \<leftarrow> scroll_loop sc m res r] \<le> length r"
  by (induction r) (auto simp: Let_def split: scroll_outcome.splits)

section \<open>The listing loop\<close>

lemma listing_loop_results:
  "fst (listing_loop pf m ls acc) = acc @ map (record_of pf) (filter opened ls)"
proof (induction ls arbitrary: acc)
  case Nil show ?case by simp
next
  case (Cons l ls)
  show ?case
  proof (cases "listing_click l")
    case (Inl e)
    then show ?thesis using Cons[of acc] by (simp add: opened_def)
  next
    case (Inr panel)
    then show ?thesis
      using Cons[of "acc @ [extract_business_details pf panel]"]
      by (simp add: opened_def record_of_def Let_def case_prod_beta)
  qed
qed

lemma completed_after_scrolling:
  "completed s = 0 \<Longrightarrow>
   completed (foldl assign s (concat (map progress_callback (scroll_loop sc m [] r)))) = 0"
proof (induction r arbitrary: s)
  case Nil then show ?case by simp
next
  case (Cons i r)
  then show ?case by (cases "sc i") simp_all
qed

lemma completed_after_listings:
  "completed s = int (length acc) \<Longrightarrow>
   completed (foldl assign s (concat (map progress_callback (snd (listing_loop pf m ls acc)))))
     = int (length (fst (listing_loop pf m ls acc)))"
proof (induction ls arbitrary: acc s)
  case Nil then show ?case by simp
next
  case (Cons l ls)
  show ?case
  proof (cases "listing_click l")
    case (Inl e)
    then show ?thesis using Cons.IH[OF Cons.prems] by simp
  next
    case (Inr panel)
    let ?acc = "acc @ [extract_business_details pf panel]"
    let ?s = "foldl assign s (progress_callback (Progress (int (length ?acc)) m))"
    have "completed ?s = int (length ?acc)" by simp
    from Cons.IH[OF this] Inr show ?thesis
      by (simp add: Let_def case_prod_beta)
  qed
qed

text \<open>
  C3, as the code has it. When the driver starts, the search succeeds, the listings are
  found and the driver quits, the session reaches completed, and its records are, in
  listing order, one record for every listing among the first \<open>cap\<close> whose click does not
  raise: the record the panel reader returns, which is the empty dictionary when the
  headline of the panel never appears. A listing whose click raises contributes no
  record. The final progress has completed equal to the number of records.
\<close>

theorem opened_listings_are_recorded:
  assumes "constructor_fault w = None"
    and "search w (kw @ py '' in '' @ loc) = None"
    and "find_listings w = Inr ls"
    and "quit w = None"
  shows "status (run_scraping_task str_exn pf w t0 t1 (ScrapeSession sid kw loc cap)) = Completed \<and>
         results (run_scraping_task str_exn pf w t0 t1 (ScrapeSession sid kw loc cap))
           = map (record_of pf) (filter opened (slice_to ls cap)) \<and>
         completed (run_scraping_task str_exn pf w t0 t1 (ScrapeSession sid kw loc cap))
           = int (length (filter opened (slice_to ls cap))) \<and>
         (\<forall>l p. listing_click l = Inr p \<and>
                (\<exists>e. wait_until_present p (py ''div.fontHeadlineSmall'') = Inl e)
                \<longrightarrow> opened l \<and> record_of pf l = Empty_dict)"
proof -
  let ?s = "ScrapeSession sid kw loc cap :: 'a session"
  let ?scrolled = "scroll_loop (scroll w) cap ([] :: 'a business_data list) [0..<nat (cap div 20)]"
  let ?loop = "listing_loop pf cap (slice_to ls cap) []"
  let ?rs = "map (record_of pf) (filter opened (slice_to ls cap))"
  have rs: "fst ?loop = ?rs"
    using listing_loop_results[of pf cap "slice_to ls cap" "[]"] by simp
  have sync: "scrape_google_maps_sync pf w kw loc cap = (Inr ?rs, ?scrolled @ snd ?loop)"
    using assms rs by (simp add: scrape_google_maps_sync_def scrape_body_def Let_def case_prod_beta)
  let ?s2 = "foldl assign ?s [Set_status Running, Set_start_time t0]"
  let ?s3 = "foldl assign ?s2 (concat (map progress_callback ?scrolled))"
  let ?s4 = "foldl assign ?s3 (concat (map progress_callback (snd ?loop)))"
  have run: "run_scraping_task str_exn pf w t0 t1 ?s
               = foldl assign ?s4 [Set_results ?rs, Set_status Completed, Set_end_time t1]"
    using assms(1) sync
    by (simp add: run_scraping_task_def run_scraping_task_assignments_def ScrapeSession_def)
  have "completed ?s2 = 0" by (simp add: ScrapeSession_def)
  then have "completed ?s3 = 0" by (rule completed_after_scrolling)
  then have "completed ?s3 = int (length ([] :: 'a business_data list))" by simp
  then have "completed ?s4 = int (length (fst ?loop))" by (rule completed_after_listings)
  then have c: "completed ?s4 = int (length (filter opened (slice_to ls cap)))"
    unfolding rs by simp
  have empty: "\<forall>l p. listing_click l = Inr p \<and>
                (\<exists>e. wait_until_present p (py ''div.fontHeadlineSmall'') = Inl e)
                \<longrightarrow> opened l \<and> record_of pf l = Empty_dict"
    by (auto simp: opened_def record_of_def extract_business_details_def bind_def try_except_def)
  show ?thesis
    unfolding run using c empty by simp
qed

theorem opened_listings_are_recorded_witness:
  "status (run_scraping_task exn_text sample_float ten_listings_world 0 1 (fresh_session 10)) = Completed \<and>
   length (results (run_scraping_task exn_text sample_float ten_listings_world 0 1 (fresh_session 10))) = 10 \<and>
   length (filter (\<lambda>r. r = Empty_dict)
     (results (run_scraping_task exn_text sample_float ten_listings_world 0 1 (fresh_session 10)))) = 2 \<and>
   completed (run_scraping_task exn_text sample_float ten_listings_world 0 1 (fresh_session 10)) = 10"
proof -
  have w: "constructor_fault ten_listings_world = None"
          "search ten_listings_world (py ''cafes'' @ py '' in '' @ py ''Pune'') = None"
          "find_listings ten_listings_world = Inr ten_listings"
          "quit ten_listings_world = None"
    by (simp_all add: ten_listings_world_def listings_world_def)
  have good: "opened good_listing" "record_of sample_float good_listing \<noteq> Empty_dict"
    by (simp_all add: opened_def record_of_def good_listing_def extract_business_details_def
          text_page_def bind_def try_except_def)
  have unreadable: "opened unreadable_listing" "record_of sample_float unreadable_listing = Empty_dict"
    by (simp_all add: opened_def record_of_def unreadable_listing_def extract_business_details_def
          blank_page_def bind_def try_except_def)
  have sl: "slice_to ten_listings 10 = ten_listings"
    by (simp add: slice_to_def ten_listings_def)
  have all_open: "filter opened ten_listings = ten_listings"
    by (simp add: ten_listings_def good unreadable)
  have ten: "length ten_listings = 10"
    by (simp add: ten_listings_def)
  have two: "length (filter (\<lambda>l. record_of sample_float l = Empty_dict) ten_listings) = 2"
    by (simp add: ten_listings_def good unreadable)
  show ?thesis
    using opened_listings_are_recorded
            [OF w, of exn_text sample_float 0 1 "py ''s1''" 10, unfolded sl all_open]
    by (simp add: fresh_session_def ten two comp_def)
qed

text \<open>
  C3 as stated fails when the click on a listing raises: one listing is discovered, the
  run completes, and no record is appended for it.
\<close>

theorem skipped_listing_counterexample:
  "find_listings unclickable_world = Inr [unclickable_listing] \<and>
   status (run_scraping_task exn_text sample_float unclickable_world 0 1 (fresh_session 10)) = Completed \<and>
   results (run_scraping_task exn_text sample_float unclickable_world 0 1 (fresh_session 10)) = []"
  by (simp add: run_scraping_task_def run_scraping_task_assignments_def scrape_google_maps_sync_def
        scrape_body_def unclickable_world_def listings_world_def unclickable_listing_def
        slice_to_def fresh_session_def ScrapeSession_def)

end
